theory Spec2Isabelle
  imports Main
begin

section \<open>JavaScript values\<close>

text \<open>
  A property that may be absent is a \<open>string option\<close>: \<open>None\<close> is JavaScript's
  \<open>undefined\<close>. Strings are byte strings; the plugin's own literals are ASCII.
\<close>

definition truthy :: "string option \<Rightarrow> bool" where
  \<comment> \<open>\<open>undefined\<close> and the empty string are falsy, every other string is truthy\<close>
  "truthy v = (case v of None \<Rightarrow> False | Some s \<Rightarrow> s \<noteq> [])"

definition str_of :: "string option \<Rightarrow> string" where
  \<comment> \<open>string coercion, as in a template literal or an assignment to \<open>process.env\<close>\<close>
  "str_of v = (case v of None \<Rightarrow> ''undefined'' | Some s \<Rightarrow> s)"

definition or_else :: "string option \<Rightarrow> string option \<Rightarrow> string option" where
  \<comment> \<open>\<open>a || b\<close>\<close>
  "or_else a b = (if truthy a then a else b)"

definition startsWith :: "string \<Rightarrow> string \<Rightarrow> bool" where
  "startsWith s p = (take (length p) s = p)"

definition toUpperChar :: "char \<Rightarrow> char" where
  "toUpperChar c =
     (case map_of (zip ''abcdefghijklmnopqrstuvwxyz'' ''ABCDEFGHIJKLMNOPQRSTUVWXYZ'') c of
        None \<Rightarrow> c
      | Some u \<Rightarrow> u)"

definition toUpperCase :: "string \<Rightarrow> string" where
  \<comment> \<open>\<open>String.prototype.toUpperCase\<close> on ASCII text\<close>
  "toUpperCase s = map toUpperChar s"

fun split_go :: "char \<Rightarrow> string \<Rightarrow> string \<Rightarrow> string list" where
  "split_go sep cur [] = [rev cur]"
| "split_go sep cur (c # cs) =
     (if c = sep then rev cur # split_go sep [] cs else split_go sep (c # cur) cs)"

definition split :: "char \<Rightarrow> string \<Rightarrow> string list" where
  \<comment> \<open>\<open>s.split(sep)\<close> for a one-character separator: always at least one segment\<close>
  "split sep s = split_go sep [] s"

fun join :: "string \<Rightarrow> string list \<Rightarrow> string" where
  "join sep [] = []"
| "join sep [x] = x"
| "join sep (x # y # ys) = x @ sep @ join sep (y # ys)"

definition at_index :: "'a list \<Rightarrow> nat \<Rightarrow> 'a option" where
  \<comment> \<open>\<open>xs[i]\<close>: \<open>undefined\<close> out of range\<close>
  "at_index xs i = (if i < length xs then Some (xs ! i) else None)"

section \<open>JSON documents and deep merge\<close>

datatype json =
    JNull
  | JBool bool
  | JNumber int
  | JString string
  | JArray "json list"
  | JObject "(string \<times> json) list"

text \<open>
  Modelled from the spec: \<open>lodash.merge\<close> is a dependency of the plugin, not part of it.
  Section 4.4 of the specification has the merge additive and deep: entries under other
  names are kept, an entry of the same name is merged field by field, not replaced. The
  model follows the library's documented behaviour on JSON data: plain objects and arrays
  of the source are merged recursively into the destination (arrays index by index), any
  other source value is assigned over the destination's. \<open>None\<close> as destination value
  is a key or index the destination does not have: the source value is then copied. An
  object merged over an array, which the library hangs on the array as named properties,
  has no JSON value: the model takes a copy of the object.
\<close>

fun merge :: "json option \<Rightarrow> json \<Rightarrow> json"
  and mergeArray :: "json list \<Rightarrow> json list \<Rightarrow> json list"
  and mergeObject :: "(string \<times> json) list \<Rightarrow> (string \<times> json) list \<Rightarrow> (string \<times> json) list"
where
  "merge objValue (JArray srcs) =
     JArray (mergeArray (case objValue of Some (JArray objs) \<Rightarrow> objs | _ \<Rightarrow> []) srcs)"
| "merge objValue (JObject srcs) =
     JObject (mergeObject (case objValue of Some (JObject objs) \<Rightarrow> objs | _ \<Rightarrow> []) srcs)"
| "merge objValue srcValue = srcValue"
| "mergeArray objs [] = objs"
| "mergeArray objs (src # srcs) =
     (case objs of
        [] \<Rightarrow> merge None src # mergeArray [] srcs
      | obj # objs' \<Rightarrow> merge (Some obj) src # mergeArray objs' srcs)"
| "mergeObject objs [] = objs"
| "mergeObject objs ((key, src) # srcs) =
     mergeObject
       (case map_of objs key of
          None \<Rightarrow> objs @ [(key, merge None src)]
        | Some obj \<Rightarrow> map (\<lambda>(k, v). if k = key then (k, merge (Some v) src) else (k, v)) objs)
       srcs"

section \<open>Errors\<close>

datatype error =
    TypeError  \<comment> \<open>a property read or a method call on \<open>undefined\<close> or \<open>null\<close>\<close>
  | Error string  \<comment> \<open>\<open>new Error(message)\<close>\<close>

definition MissingConfiguration :: error where
  "MissingConfiguration = Error ''No Event Gateway configuration provided in serverless.yaml''"

definition MissingField_subdomain :: error where
  \<open>MissingField_subdomain =
     Error ''Required "subdomain" property is missing from Event Gateway configuration provided in serverless.yaml''\<close>

definition MissingField_apikey :: error where
  \<open>MissingField_apikey =
     Error ''Required "apikey" property is missing from Event Gateway configuration provided in serverless.yaml''\<close>

definition StackDescribeFailed :: error where
  "StackDescribeFailed = Error ''Error during fetching information about stack.''"

definition StackNotFound :: error where
  "StackNotFound = Error ''Unable to fetch CloudFormation stack information.''"

definition MissingCredentialsOutput :: error where
  "MissingCredentialsOutput = Error ''Event Gateway Access Key or Secret Key not found in outputs''"

definition FunctionRegistrationFailed :: "string option \<Rightarrow> string \<Rightarrow> error" where
  \<open>FunctionRegistrationFailed functionId err =
     Error (''Couldn't register a function '' @ str_of functionId @ ''. '' @ err @ ''.'')\<close>

definition SubscriptionCreationFailed :: "string option \<Rightarrow> string \<Rightarrow> error" where
  \<open>SubscriptionCreationFailed functionId err =
     Error (''Couldn't create subscriptions for '' @ str_of functionId @ ''. '' @ err @ ''.'')\<close>

section \<open>Project configuration\<close>

record config =
  subdomain :: "string option"
  apikey :: "string option"
  eventsAPI :: "string option"
  configurationAPI :: "string option"

record custom =
  custom_eventgateway :: "config option"

section \<open>Subscription path\<close>

record gw_event =
  ev_event :: string
  ev_path :: "string option"
  ev_method :: "string option"
  ev_cors :: "json option"

definition eventPath :: "gw_event \<Rightarrow> string option \<Rightarrow> string" where
  "eventPath event sub =
     (let path = (if truthy (ev_path event) then str_of (ev_path event) else ''/'');
          path = (if \<not> startsWith path ''/'' then ''/'' @ path else path)
      in ''/'' @ str_of sub @ path)"

text \<open>The path rule as the specification words it, to compare with \<open>eventPath\<close>.\<close>

definition spec_buildPath :: "gw_event \<Rightarrow> string \<Rightarrow> string" where
  "spec_buildPath event sub =
     (let declared = (case ev_path event of None \<Rightarrow> ''/'' | Some q \<Rightarrow> q);
          p = (if startsWith declared ''/'' then declared else ''/'' @ declared)
      in ''/'' @ sub @ p)"

section \<open>The plugin's world\<close>

record trigger =
  eventgateway :: "gw_event option"  \<comment> \<open>absent on a trigger of another kind\<close>

record func =
  events :: "trigger list option"

record stack_output =
  OutputKey :: "string option"
  OutputValue :: "string option"

record stack =
  stack_Outputs :: "stack_output list"

text \<open>
  The AWS provider of the host tool: the answer of \<open>describeStacks\<close> (\<open>Inl\<close> when the
  request fails, else \<open>data.Stacks\<close>), the region and the host's naming functions.
\<close>

record aws =
  describeStacks :: "string + stack list"
  getRegion :: string
  getLambdaVersionOutputLogicalId :: "string \<Rightarrow> string"
  getLambdaLogicalId :: "string \<Rightarrow> string"

text \<open>
  \<open>this\<close> of the plugin together with the process environment: the service's custom
  section and functions, the compiled template and the credential slot.
\<close>

record plugin =
  service_custom :: "custom option"
  service_functions :: "(string \<times> func) list"
  Resources :: "(string \<times> json) list"
  Outputs :: "(string \<times> json) list"
  awsProvider :: aws
  EVENT_GATEWAY_TOKEN :: "string option"

definition getAllFunctions :: "plugin \<Rightarrow> string list" where
  "getAllFunctions this = map fst (service_functions this)"

definition getFunction :: "plugin \<Rightarrow> string \<Rightarrow> func option" where
  \<comment> \<open>the host raises for a name that is no function; never so for a name of \<open>getAllFunctions\<close>\<close>
  "getFunction this name = map_of (service_functions this) name"

section \<open>Configuration resolver and client factory\<close>

definition getConfig :: "plugin \<Rightarrow> config option \<times> plugin" where
  "getConfig this =
     (case service_custom this of
        None \<Rightarrow> (None, this)
      | Some cu \<Rightarrow>
          (case custom_eventgateway cu of
             None \<Rightarrow> (None, this)
           | Some config \<Rightarrow>
               let config = config\<lparr>eventsAPI :=
                              Some (''https://'' @ str_of (subdomain config) @ ''.eventgateway-dev.io'')\<rparr>;
                   config = config\<lparr>configurationAPI := Some ''https://config.eventgateway-dev.io/''\<rparr>
               in (Some config,
                   this\<lparr>service_custom := Some (cu\<lparr>custom_eventgateway := Some config\<rparr>)\<rparr>)))"

record sdk =
  url :: string
  configurationUrl :: string
  space :: "string option"

definition read_apikey :: "config option \<Rightarrow> error + string option" where
  \<comment> \<open>\<open>config.apikey\<close>, a TypeError when \<open>config\<close> is \<open>null\<close>\<close>
  "read_apikey config = (case config of None \<Rightarrow> Inl TypeError | Some c \<Rightarrow> Inr (apikey c))"

definition getClient :: "plugin \<Rightarrow> (error + sdk) \<times> plugin" where
  "getClient this =
     (let (config, this) = getConfig this in
      case read_apikey config of
        Inl e \<Rightarrow> (Inl e, this)
      | Inr key \<Rightarrow>
          let this = this\<lparr>EVENT_GATEWAY_TOKEN :=
                           Some (str_of (or_else key (EVENT_GATEWAY_TOKEN this)))\<rparr>
          in (case config of
                None \<Rightarrow> (Inl MissingConfiguration, this)
              | Some config \<Rightarrow>
                  if \<not> truthy (subdomain config) then (Inl MissingField_subdomain, this)
                  else if \<not> truthy (apikey config) then (Inl MissingField_apikey, this)
                  else (Inr \<lparr>url = ''http://localhost:4000'',
                             configurationUrl = ''http://localhost:8080'',
                             space = subdomain config\<rparr>, this)))"

section \<open>Gateway client\<close>

record provider =
  provider_type :: string
  arn :: string
  region :: string
  awsAccessKeyId :: "string option"
  awsSecretAccessKey :: "string option"

record fn =
  functionId :: "string option"
  fn_provider :: provider

record subscription =
  subscriptionId :: string
  sub_functionId :: "string option"
  sub_event :: string
  sub_method :: "string option"
  sub_path :: string

record subscribeEvent =
  req_functionId :: "string option"
  req_event :: string
  req_path :: string
  req_cors :: "json option"
  req_method :: "string option"

datatype gw_call =
    ListFunctions
  | ListSubscriptions
  | RegisterFunction fn
  | Subscribe subscribeEvent
  | Unsubscribe string
  | DeleteFunction "string option"

text \<open>
  What the remote gateway answers: the two listings (\<open>Inl\<close> a failed request), and for
  a registration, a subscription and an unsubscription \<open>None\<close> for success or the text
  of the rejection. The answer to \<open>deleteFunction\<close> is never looked at by the plugin.
\<close>

record gateway =
  listFunctions :: "string + fn list"
  listSubscriptions :: "string + subscription list"
  gw_registerFunction :: "fn \<Rightarrow> string option"
  gw_subscribe :: "subscribeEvent \<Rightarrow> string option"
  gw_unsubscribe :: "string \<Rightarrow> string option"

text \<open>
  What a run does that can be seen from outside: a call to the gateway, a line on the
  console, and the rejection of a detached unit of work that nothing handles. An error
  that \<open>to(...)\<close> catches and the caller drops leaves no trace.
\<close>

datatype action =
    Call gw_call
  | Log string
  | Rejected error

definition registerFunction :: "gateway \<Rightarrow> fn \<Rightarrow> (error + unit) \<times> action list" where
  "registerFunction eg f =
     (case gw_registerFunction eg f of
        Some err \<Rightarrow> (Inl (FunctionRegistrationFailed (functionId f) err), [Call (RegisterFunction f)])
      | None \<Rightarrow> (Inr (), [Call (RegisterFunction f)]))"

definition http_method :: "gw_event \<Rightarrow> error + string option" where
  \<comment> \<open>\<open>event.method.toUpperCase() || "GET"\<close>: the method call comes first\<close>
  "http_method event =
     (case ev_method event of
        None \<Rightarrow> Inl TypeError
      | Some m \<Rightarrow> Inr (or_else (Some (toUpperCase m)) (Some ''GET'')))"

definition createSubscription ::
  "config \<Rightarrow> gateway \<Rightarrow> string option \<Rightarrow> gw_event option \<Rightarrow> (error + unit) \<times> action list"
where
  "createSubscription config eg fid event =
     (case event of
        None \<Rightarrow> (Inl TypeError, [])
      | Some event \<Rightarrow>
          let subscribeEvent =
                \<lparr>req_functionId = fid, req_event = ev_event event,
                 req_path = eventPath event (subdomain config), req_cors = ev_cors event,
                 req_method = None\<rparr>
          in (case (if ev_event event = ''http''
                    then map_sum id (\<lambda>m. subscribeEvent\<lparr>req_method := m\<rparr>) (http_method event)
                    else Inr subscribeEvent) of
                Inl e \<Rightarrow> (Inl e, [])
              | Inr subscribeEvent \<Rightarrow>
                  (case gw_subscribe eg subscribeEvent of
                     Some err \<Rightarrow> (Inl (SubscriptionCreationFailed fid err), [Call (Subscribe subscribeEvent)])
                   | None \<Rightarrow> (Inr (), [Call (Subscribe subscribeEvent)]))))"

section \<open>Qualifying functions and stack outputs\<close>

definition filterFunctionsWithEvents :: "plugin \<Rightarrow> string list" where
  "filterFunctionsWithEvents this =
     filter (\<lambda>name.
        case getFunction this name of
          None \<Rightarrow> False
        | Some func \<Rightarrow>
            (case events func of
               None \<Rightarrow> False
             | Some evs \<Rightarrow> find (\<lambda>event. eventgateway event \<noteq> None) evs \<noteq> None))
       (getAllFunctions this)"

definition add_output :: "(string \<rightharpoonup> string) \<Rightarrow> stack_output \<Rightarrow> (string \<rightharpoonup> string)" where
  \<comment> \<open>the reducer of \<open>parseOutputs\<close>\<close>
  "add_output agg current =
     (if truthy (OutputKey current) \<and> truthy (OutputValue current)
      then agg(str_of (OutputKey current) \<mapsto> str_of (OutputValue current))
      else agg)"

definition parseOutputs :: "stack \<Rightarrow> (string \<rightharpoonup> string)" where
  "parseOutputs stack = foldl add_output Map.empty (stack_Outputs stack)"

section \<open>Log lines\<close>

definition log_registered :: "string \<Rightarrow> string option \<Rightarrow> string" where
  \<open>log_registered name fid =
     ''EventGateway: Function "'' @ name @ ''" registered. (ID: '' @ str_of fid @ '')''\<close>

definition log_subscribed :: "string \<Rightarrow> string \<Rightarrow> string" where
  \<open>log_subscribed name event =
     ''EventGateway: Function "'' @ name @ ''" subscribed to "'' @ event @ ''" event.''\<close>

definition log_unsubscribed :: "string \<Rightarrow> string \<Rightarrow> string" where
  \<open>log_unsubscribed name event =
     ''EventGateway: Function "'' @ name @ ''" unsubscribed from "'' @ event @ ''" event.''\<close>

definition log_deleted :: "string option \<Rightarrow> string" where
  \<open>log_deleted fid = ''EventGateway: Function "'' @ str_of fid @ ''" deleted.''\<close>

section \<open>Synchronisation engine\<close>

text \<open>
  The callbacks of \<open>map\<close> and \<open>forEach\<close> in \<open>configureEventGateway\<close> are \<open>async\<close>
  functions that nobody awaits: each is a detached unit of work, and an exception in one
  rejects its own promise only. The working sets \<open>functions\<close> and
  \<open>createdSubscriptions\<close> are written before the first \<open>await\<close> of the unit that writes
  them, so what a unit does is independent of how the units interleave. The model runs
  every unit to its end where the source starts it: a trace lists the actions of each
  unit in their order, and says nothing of the order between the actions of different
  units, which depends on when the gateway answers.
\<close>

definition subscribe_new :: "config \<Rightarrow> gateway \<Rightarrow> string \<Rightarrow> string option \<Rightarrow> trigger \<Rightarrow> action list" where
  \<comment> \<open>the callback of \<open>functionEvents.forEach\<close> for a function just registered;
      the result of \<open>createSubscription\<close> goes through \<open>to\<close> and is dropped\<close>
  "subscribe_new config eg name fid event =
     snd (createSubscription config eg fid (eventgateway event)) @
     (case eventgateway event of
        None \<Rightarrow> [Rejected TypeError]
      | Some ev \<Rightarrow> [Log (log_subscribed name (ev_event ev))])"

definition matches :: "config \<Rightarrow> gw_event \<Rightarrow> subscription \<Rightarrow> bool" where
  "matches config event s =
     (sub_event s = ev_event event \<and> sub_method s = ev_method event \<and>
      sub_path s = eventPath event (subdomain config))"

definition reconcile_event ::
  "config \<Rightarrow> gateway \<Rightarrow> string \<Rightarrow> string option \<Rightarrow> subscription list \<Rightarrow> trigger
     \<Rightarrow> action list \<times> subscription list"
where
  \<comment> \<open>the callback of \<open>functionEvents.forEach\<close> for a function already registered; on a
      trigger with no \<open>eventgateway\<close> the first read of \<open>event.event\<close> is a TypeError\<close>
  "reconcile_event config eg name fid createdSubscriptions event =
     (case eventgateway event of
        None \<Rightarrow> ([Rejected TypeError], createdSubscriptions)
      | Some event \<Rightarrow>
          (case find (matches config event) createdSubscriptions of
             None \<Rightarrow>
               (snd (createSubscription config eg fid (Some event)) @
                  [Log (log_subscribed name (ev_event event))],
                createdSubscriptions)
           | Some createdSubscription \<Rightarrow>
               ([], filter (\<lambda>s. subscriptionId s \<noteq> subscriptionId createdSubscription)
                      createdSubscriptions)))"

fun reconcile_events ::
  "config \<Rightarrow> gateway \<Rightarrow> string \<Rightarrow> string option \<Rightarrow> subscription list \<Rightarrow> trigger list
     \<Rightarrow> action list \<times> subscription list"
where
  "reconcile_events config eg name fid createdSubscriptions [] = ([], createdSubscriptions)"
| "reconcile_events config eg name fid createdSubscriptions (event # rest) =
     (let (acts, createdSubscriptions) = reconcile_event config eg name fid createdSubscriptions event;
          (acts', createdSubscriptions) = reconcile_events config eg name fid createdSubscriptions rest
      in (acts @ acts', createdSubscriptions))"

definition unsubscribe_stale :: "gateway \<Rightarrow> string \<Rightarrow> subscription \<Rightarrow> action list" where
  \<comment> \<open>the promise of \<open>eg.unsubscribe\<close> is neither awaited nor handled\<close>
  "unsubscribe_stale eg name sub =
     [Call (Unsubscribe (subscriptionId sub)), Log (log_unsubscribed name (sub_event sub))] @
     (case gw_unsubscribe eg (subscriptionId sub) of
        None \<Rightarrow> []
      | Some err \<Rightarrow> [Rejected (Error err)])"

definition synchronize_function ::
  "plugin \<Rightarrow> config \<Rightarrow> gateway \<Rightarrow> (string \<rightharpoonup> string) \<Rightarrow> subscription list \<Rightarrow> fn list \<Rightarrow> string
     \<Rightarrow> action list \<times> fn list"
where
  \<comment> \<open>the callback of \<open>filterFunctionsWithEvents().map\<close>; returns the new \<open>functions\<close>\<close>
  "synchronize_function this config eg outputs subscriptions functions name =
     (let outputKey = getLambdaVersionOutputLogicalId (awsProvider this) name in
      case outputs outputKey of
        None \<Rightarrow> ([Rejected TypeError], functions)
      | Some fullArn \<Rightarrow>
          let arn = join '':'' (take 7 (split CHR '':'' fullArn));
              fid = at_index (split CHR '':'' fullArn) 6;
              f = \<lparr>functionId = fid,
                   fn_provider = \<lparr>provider_type = ''awslambda'', arn = arn,
                                  region = getRegion (awsProvider this),
                                  awsAccessKeyId = outputs ''EventGatewayUserAccessKey'',
                                  awsSecretAccessKey = outputs ''EventGatewayUserSecretKey''\<rparr>\<rparr>
          in (case getFunction this name of
                None \<Rightarrow> ([Rejected (Error ''Function does not exist in this Service'')], functions)
                  \<comment> \<open>the host's own error; not reached, \<open>name\<close> is a function of the service\<close>
              | Some func \<Rightarrow>
                  (case find (\<lambda>g. functionId g = fid) functions of
                     None \<Rightarrow>
                       (snd (registerFunction eg f) @ [Log (log_registered name (functionId f))] @
                          (case events func of
                             None \<Rightarrow> [Rejected TypeError]
                           | Some functionEvents \<Rightarrow>
                               concat (map (subscribe_new config eg name fid) functionEvents)),
                        functions)
                   | Some registeredFunction \<Rightarrow>
                       let functions = filter (\<lambda>g. functionId g \<noteq> fid) functions;
                           createdSubscriptions = filter (\<lambda>s. sub_functionId s = fid) subscriptions
                       in (case events func of
                             None \<Rightarrow> ([Rejected TypeError], functions)
                           | Some functionEvents \<Rightarrow>
                               let (acts, createdSubscriptions) =
                                     reconcile_events config eg name fid createdSubscriptions functionEvents
                               in (acts @ concat (map (unsubscribe_stale eg name) createdSubscriptions),
                                   functions)))))"

fun synchronize_functions ::
  "plugin \<Rightarrow> config \<Rightarrow> gateway \<Rightarrow> (string \<rightharpoonup> string) \<Rightarrow> subscription list \<Rightarrow> fn list \<Rightarrow> string list
     \<Rightarrow> action list \<times> fn list"
where
  "synchronize_functions this config eg outputs subscriptions functions [] = ([], functions)"
| "synchronize_functions this config eg outputs subscriptions functions (name # names) =
     (let (acts, functions) = synchronize_function this config eg outputs subscriptions functions name;
          (acts', functions) = synchronize_functions this config eg outputs subscriptions functions names
      in (acts @ acts', functions))"

definition delete_function :: "subscription list \<Rightarrow> fn \<Rightarrow> action list" where
  \<comment> \<open>the callback of the final \<open>functions.forEach\<close>; both awaits go through \<open>to\<close>\<close>
  "delete_function subscriptions functionToDelete =
     (let subscriptionsToDelete =
            filter (\<lambda>s. sub_functionId s = functionId functionToDelete) subscriptions
      in map (\<lambda>toDelete. Call (Unsubscribe (subscriptionId toDelete))) subscriptionsToDelete @
         [Call (DeleteFunction (functionId functionToDelete)),
          Log (log_deleted (functionId functionToDelete))])"

definition reconcile :: "plugin \<Rightarrow> config \<Rightarrow> gateway \<Rightarrow> (string \<rightharpoonup> string) \<Rightarrow> action list" where
  \<comment> \<open>\<open>configureEventGateway\<close> from the two listings on\<close>
  "reconcile this config eg outputs =
     (let functions = (case listFunctions eg of Inl err \<Rightarrow> [] | Inr result \<Rightarrow> result);
          subscriptions = (case listSubscriptions eg of Inl err \<Rightarrow> [] | Inr result \<Rightarrow> result);
          (acts, functions) =
            synchronize_functions this config eg outputs subscriptions functions
              (filterFunctionsWithEvents this)
      in [Call ListFunctions, Call ListSubscriptions] @ acts @
         concat (map (delete_function subscriptions) functions))"

definition configureEventGateway :: "plugin \<Rightarrow> gateway \<Rightarrow> (error + unit) \<times> action list \<times> plugin" where
  "configureEventGateway this eg =
     (let (config, this) = getConfig this;
          (client, this) = getClient this
      in case client of
           Inl e \<Rightarrow> (Inl e, [], this)
         | Inr client \<Rightarrow>
             (case config of
                None \<Rightarrow> (Inl TypeError, [], this)
              | Some config \<Rightarrow>
                  let banner = [Log [], Log ''Event Gateway Plugin''] in
                  (case describeStacks (awsProvider this) of
                     Inl err \<Rightarrow> (Inl StackDescribeFailed, banner, this)
                   | Inr stacks \<Rightarrow>
                       if stacks = [] then (Inl StackNotFound, banner, this)
                       else
                         let stack = last stacks;
                             outputs = parseOutputs stack
                         in if \<not> truthy (outputs ''EventGatewayUserAccessKey'') \<or>
                               \<not> truthy (outputs ''EventGatewayUserSecretKey'')
                            then (Inl MissingCredentialsOutput, banner, this)
                            else (Inr (), banner @ reconcile this config eg outputs, this))))"

definition gateway_calls :: "action list \<Rightarrow> gw_call list" where
  "gateway_calls acts = concat (map (\<lambda>a. case a of Call c \<Rightarrow> [c] | _ \<Rightarrow> []) acts)"

section \<open>Template augmenter\<close>

definition arn_reference :: "plugin \<Rightarrow> string \<Rightarrow> json" where
  "arn_reference this name =
     JObject [(''Fn::GetAtt'',
               JArray [JString (getLambdaLogicalId (awsProvider this) name), JString ''Arn''])]"

definition policy_resources :: "plugin \<Rightarrow> json list" where
  "policy_resources this = map (arn_reference this) (filterFunctionsWithEvents this)"

definition iam_resources :: "json list \<Rightarrow> (string \<times> json) list" where
  "iam_resources resources =
     [(''EventGatewayUser'', JObject [(''Type'', JString ''AWS::IAM::User'')]),
      (''EventGatewayUserPolicy'',
         JObject
           [(''Type'', JString ''AWS::IAM::ManagedPolicy''),
            (''Properties'',
               JObject
                 [(''Description'',
                     JString ''This policy allows Custom plugin to gather data on IAM users''),
                  (''PolicyDocument'',
                     JObject
                       [(''Version'', JString ''2012-10-17''),
                        (''Statement'',
                           JArray
                             [JObject
                                [(''Effect'', JString ''Allow''),
                                 (''Action'', JArray [JString ''lambda:InvokeFunction'']),
                                 (''Resource'', JArray resources)]])]),
                  (''Users'', JArray [JObject [(''Ref'', JString ''EventGatewayUser'')]])])]),
      (''EventGatewayUserKeys'',
         JObject
           [(''Type'', JString ''AWS::IAM::AccessKey''),
            (''Properties'',
               JObject [(''UserName'', JObject [(''Ref'', JString ''EventGatewayUser'')])])])]"

definition iam_outputs :: "(string \<times> json) list" where
  "iam_outputs =
     [(''EventGatewayUserAccessKey'',
         JObject
           [(''Value'', JObject [(''Ref'', JString ''EventGatewayUserKeys'')]),
            (''Description'', JString ''Access Key ID of Custom User'')]),
      (''EventGatewayUserSecretKey'',
         JObject
           [(''Value'',
               JObject [(''Fn::GetAtt'',
                         JArray [JString ''EventGatewayUserKeys'', JString ''SecretAccessKey''])]),
            (''Description'', JString ''Secret Key of Custom User'')])]"

definition addUserDefinition :: "plugin \<Rightarrow> plugin" where
  "addUserDefinition this =
     (let resources = policy_resources this;
          this = this\<lparr>Resources := mergeObject (Resources this) (iam_resources resources)\<rparr>
      in this\<lparr>Outputs := mergeObject (Outputs this) iam_outputs\<rparr>)"

text \<open>Reading the policy's \<open>Resource\<close> list and the names of a template back.\<close>

definition field :: "string \<Rightarrow> json \<Rightarrow> json option" where
  "field k j = (case j of JObject kvs \<Rightarrow> map_of kvs k | _ \<Rightarrow> None)"

definition item :: "nat \<Rightarrow> json \<Rightarrow> json option" where
  "item i j = (case j of JArray vs \<Rightarrow> at_index vs i | _ \<Rightarrow> None)"

definition policy_Resource :: "(string \<times> json) list \<Rightarrow> json option" where
  "policy_Resource resources =
     Option.bind (map_of resources ''EventGatewayUserPolicy'') (\<lambda>policy.
     Option.bind (field ''Properties'' policy) (\<lambda>properties.
     Option.bind (field ''PolicyDocument'' properties) (\<lambda>document.
     Option.bind (field ''Statement'' document) (\<lambda>statements.
     Option.bind (item 0 statements) (field ''Resource'')))))"

section \<open>A model of the gateway service\<close>

text \<open>
  Modelled from the spec: the gateway is an external service, reached through its client
  library only. Its wire contract (sections 3 and 6 of the specification) is all that is
  known of it: a registered function is listed as registered, a subscription is listed
  with the function id, event, method and path of its request under an id of its own,
  \<open>unsubscribe\<close> and \<open>deleteFunction\<close> remove by id, and every request succeeds.
\<close>

record gw_state =
  gws_functions :: "fn list"
  gws_subscriptions :: "subscription list"
  gws_next :: nat

definition gateway_apply :: "gw_state \<Rightarrow> gw_call \<Rightarrow> gw_state" where
  "gateway_apply g c =
     (case c of
        ListFunctions \<Rightarrow> g
      | ListSubscriptions \<Rightarrow> g
      | RegisterFunction f \<Rightarrow> g\<lparr>gws_functions := gws_functions g @ [f]\<rparr>
      | Subscribe r \<Rightarrow>
          g\<lparr>gws_subscriptions := gws_subscriptions g @
               [\<lparr>subscriptionId = ''sub'' @ replicate (gws_next g) CHR ''+'',
                 sub_functionId = req_functionId r, sub_event = req_event r,
                 sub_method = req_method r, sub_path = req_path r\<rparr>],
            gws_next := Suc (gws_next g)\<rparr>
      | Unsubscribe i \<Rightarrow>
          g\<lparr>gws_subscriptions := filter (\<lambda>s. subscriptionId s \<noteq> i) (gws_subscriptions g)\<rparr>
      | DeleteFunction i \<Rightarrow>
          g\<lparr>gws_functions := filter (\<lambda>f. functionId f \<noteq> i) (gws_functions g)\<rparr>)"

definition gateway_of :: "gw_state \<Rightarrow> gateway" where
  "gateway_of g =
     \<lparr>listFunctions = Inr (gws_functions g), listSubscriptions = Inr (gws_subscriptions g),
      gw_registerFunction = (\<lambda>f. None), gw_subscribe = (\<lambda>r. None),
      gw_unsubscribe = (\<lambda>i. None)\<rparr>"

definition synchronize_on :: "plugin \<Rightarrow> gw_state \<Rightarrow> gw_call list \<times> gw_state" where
  \<comment> \<open>one run against the gateway in state \<open>g\<close>: the calls it makes and the state they leave\<close>
  "synchronize_on this g =
     (let calls = gateway_calls (fst (snd (configureEventGateway this (gateway_of g))))
      in (calls, foldl gateway_apply g calls))"

definition changes :: "gw_call list \<Rightarrow> gw_call list" where
  \<comment> \<open>the calls other than the two listings\<close>
  "changes calls = filter (\<lambda>c. c \<noteq> ListFunctions \<and> c \<noteq> ListSubscriptions) calls"

section \<open>A sample project\<close>

definition sample_aws :: aws where
  "sample_aws =
     \<lparr>describeStacks =
        Inr [\<lparr>stack_Outputs =
               [\<lparr>OutputKey = Some ''EventGatewayUserAccessKey'', OutputValue = Some ''AKIDEXAMPLE''\<rparr>,
                \<lparr>OutputKey = Some ''EventGatewayUserSecretKey'', OutputValue = Some ''SECRETEXAMPLE''\<rparr>,
                \<lparr>OutputKey = Some ''HelloLambdaVersion'',
                 OutputValue = Some ''arn:aws:lambda:us-east-1:123456789012:function:myFunc:5''\<rparr>]\<rparr>],
      getRegion = ''us-east-1'',
      getLambdaVersionOutputLogicalId = (\<lambda>name. name @ ''LambdaVersion''),
      getLambdaLogicalId = (\<lambda>name. name @ ''LambdaFunction'')\<rparr>"

definition sample_config :: config where
  "sample_config =
     \<lparr>subdomain = Some ''acme'', apikey = Some ''k'', eventsAPI = None, configurationAPI = None\<rparr>"

definition sample_plugin :: "config option \<Rightarrow> trigger list \<Rightarrow> plugin" where
  \<comment> \<open>one function, \<open>Hello\<close>, with the given triggers\<close>
  "sample_plugin sect triggers =
     \<lparr>service_custom = Some \<lparr>custom_eventgateway = sect\<rparr>,
      service_functions = [(''Hello'', \<lparr>events = Some triggers\<rparr>)],
      Resources = [(''HelloLambdaFunction'', JObject [(''Type'', JString ''AWS::Lambda::Function'')])],
      Outputs = [],
      awsProvider = sample_aws,
      EVENT_GATEWAY_TOKEN = Some ''old''\<rparr>"

definition http_trigger :: "string option \<Rightarrow> trigger" where
  "http_trigger m =
     \<lparr>eventgateway = Some \<lparr>ev_event = ''http'', ev_path = Some ''/hello'', ev_method = m,
                            ev_cors = None\<rparr>\<rparr>"

definition schedule_trigger :: trigger where
  \<comment> \<open>\<open>{schedule: ...}\<close>: a trigger with no \<open>eventgateway\<close> key\<close>
  "schedule_trigger = \<lparr>eventgateway = None\<rparr>"

definition sample_fn :: fn where
  "sample_fn =
     \<lparr>functionId = Some ''myFunc'',
      fn_provider = \<lparr>provider_type = ''awslambda'',
                     arn = ''arn:aws:lambda:us-east-1:123456789012:function:myFunc'',
                     region = ''us-east-1'', awsAccessKeyId = Some ''AKIDEXAMPLE'',
                     awsSecretAccessKey = Some ''SECRETEXAMPLE''\<rparr>\<rparr>"

definition sample_request :: subscribeEvent where
  "sample_request =
     \<lparr>req_functionId = Some ''myFunc'', req_event = ''http'', req_path = ''/acme/hello'',
      req_cors = None, req_method = Some ''GET''\<rparr>"

definition empty_gateway :: gw_state where
  "empty_gateway = \<lparr>gws_functions = [], gws_subscriptions = [], gws_next = 0\<rparr>"

definition rejecting_gateway :: gateway where
  \<comment> \<open>an empty gateway that rejects every registration\<close>
  "rejecting_gateway = (gateway_of empty_gateway)\<lparr>gw_registerFunction := (\<lambda>f. Some ''boom'')\<rparr>"

definition no_secret :: plugin where
  \<comment> \<open>the sample project on a stack whose outputs lack \<open>EventGatewayUserSecretKey\<close>\<close>
  "no_secret = (sample_plugin (Some sample_config) [http_trigger (Some ''GET'')])
     \<lparr>awsProvider := sample_aws\<lparr>describeStacks :=
        Inr [\<lparr>stack_Outputs =
               [\<lparr>OutputKey = Some ''EventGatewayUserAccessKey'', OutputValue = Some ''AKIDEXAMPLE''\<rparr>,
                \<lparr>OutputKey = Some ''HelloLambdaVersion'',
                 OutputValue = Some ''arn:aws:lambda:us-east-1:123456789012:function:myFunc:5''\<rparr>]\<rparr>]\<rparr>\<rparr>"

definition sample_subscription :: subscription where
  \<comment> \<open>how the gateway lists the subscription made by \<open>sample_request\<close>\<close>
  "sample_subscription =
     \<lparr>subscriptionId = ''sub'', sub_functionId = Some ''myFunc'', sub_event = ''http'',
      sub_method = Some ''GET'', sub_path = ''/acme/hello''\<rparr>"

definition synchronized_gateway :: gw_state where
  "synchronized_gateway =
     \<lparr>gws_functions = [sample_fn], gws_subscriptions = [sample_subscription], gws_next = 1\<rparr>"

definition earlier_policy :: json where
  \<comment> \<open>a managed policy as an earlier compilation left it, for two functions since removed\<close>
  "earlier_policy =
     JObject
       [(''Type'', JString ''AWS::IAM::ManagedPolicy''),
        (''Properties'',
           JObject
             [(''PolicyDocument'',
                 JObject
                   [(''Statement'',
                       JArray
                         [JObject
                            [(''Resource'',
                                JArray
                                  [JObject [(''Fn::GetAtt'',
                                             JArray [JString ''OldLambdaFunction'', JString ''Arn''])],
                                   JObject [(''Fn::GetAtt'',
                                             JArray [JString ''GoneLambdaFunction'', JString ''Arn''])]])]])])])]"

definition recompiled_plugin :: "trigger list \<Rightarrow> plugin" where
  \<comment> \<open>the sample project on a template that already defines \<open>EventGatewayUserPolicy\<close>\<close>
  "recompiled_plugin triggers =
     (sample_plugin None triggers)
       \<lparr>Resources := [(''HelloLambdaFunction'', JObject [(''Type'', JString ''AWS::Lambda::Function'')]),
                      (''EventGatewayUserPolicy'', earlier_policy)]\<rparr>"

section \<open>Subscription path builder\<close>

text \<open>
  C9. For every event descriptor and subdomain, \<open>eventPath\<close> returns \<open>"/" + subdomain + p\<close>,
  where \<open>p\<close> is the declared path, \<open>"/"\<close> when it is absent, with a \<open>"/"\<close> put in front
  when it does not start with one, and nothing else is normalised. The three examples of
  the specification are instances.
\<close>

theorem eventPath_is_spec_buildPath:
  "eventPath event (Some sub) = spec_buildPath event sub \<and>
   eventPath \<lparr>ev_event = e, ev_path = Some ''/widgets'', ev_method = m, ev_cors = c\<rparr> (Some ''acme'')
     = ''/acme/widgets'' \<and>
   eventPath \<lparr>ev_event = e, ev_path = Some ''widgets'', ev_method = m, ev_cors = c\<rparr> (Some ''acme'')
     = ''/acme/widgets'' \<and>
   eventPath \<lparr>ev_event = e, ev_path = None, ev_method = m, ev_cors = c\<rparr> (Some ''acme'')
     = ''/acme/''"
proof -
  have "eventPath event (Some sub) = spec_buildPath event sub"
  proof (cases "ev_path event")
    case None
    then show ?thesis
      by (simp add: eventPath_def spec_buildPath_def truthy_def str_of_def startsWith_def)
  next
    case (Some q)
    then show ?thesis
      by (cases q)
        (simp_all add: eventPath_def spec_buildPath_def truthy_def str_of_def startsWith_def Let_def)
  qed
  then show ?thesis
    by (simp add: eventPath_def truthy_def str_of_def startsWith_def)
qed

section \<open>Configuration resolver and client factory: properties\<close>

text \<open>
  When \<open>getClient\<close> returns a client, \<open>getConfig\<close> has returned a section: the branch of
  \<open>configureEventGateway\<close> for a client without a section is never taken.
\<close>

lemma getClient_client_has_section:
  "fst (getClient (snd (getConfig this))) = Inr client \<Longrightarrow> fst (getConfig this) \<noteq> None"
  by (auto simp: getClient_def getConfig_def read_apikey_def Let_def
      split: option.splits if_splits)

text \<open>
  C10. \<open>getClient\<close> writes the configured \<open>apikey\<close> into the process-wide
  \<open>EVENT_GATEWAY_TOKEN\<close> slot before any of its checks: when the configuration section
  exists and \<open>apikey\<close> is a non-empty string, the slot holds that key after the call
  whatever the call returns, also when it fails for the missing \<open>subdomain\<close>.
\<close>

theorem getClient_sets_token_before_validation:
  assumes "service_custom this = Some cu"
    and "custom_eventgateway cu = Some c"
    and "apikey c = Some k" and "k \<noteq> []"
  shows "EVENT_GATEWAY_TOKEN (snd (getClient this)) = Some k \<and>
         (\<not> truthy (subdomain c) \<longrightarrow> fst (getClient this) = Inl MissingField_subdomain)"
  using assms
  by (simp add: getClient_def getConfig_def read_apikey_def or_else_def truthy_def str_of_def Let_def)

text \<open>
  A project with \<open>apikey: "k"\<close> and no \<open>subdomain\<close>, the slot holding \<open>"old"\<close>: the call
  fails and the slot holds \<open>"k"\<close>.
\<close>

theorem getClient_sets_token_before_validation_witness:
  "service_custom (sample_plugin (Some (sample_config\<lparr>subdomain := None\<rparr>)) [])
     = Some \<lparr>custom_eventgateway = Some (sample_config\<lparr>subdomain := None\<rparr>)\<rparr> \<and>
   EVENT_GATEWAY_TOKEN (sample_plugin (Some (sample_config\<lparr>subdomain := None\<rparr>)) []) = Some ''old'' \<and>
   EVENT_GATEWAY_TOKEN (snd (getClient (sample_plugin (Some (sample_config\<lparr>subdomain := None\<rparr>)) [])))
     = Some ''k'' \<and>
   fst (getClient (sample_plugin (Some (sample_config\<lparr>subdomain := None\<rparr>)) []))
     = Inl MissingField_subdomain"
  using getClient_sets_token_before_validation
    [of "sample_plugin (Some (sample_config\<lparr>subdomain := None\<rparr>)) []"
        "\<lparr>custom_eventgateway = Some (sample_config\<lparr>subdomain := None\<rparr>)\<rparr>"
        "sample_config\<lparr>subdomain := None\<rparr>" "''k''"]
  by (simp add: sample_plugin_def sample_config_def truthy_def)

text \<open>
  C6. The claim: with no \<open>eventgateway\<close> section \<open>getClient\<close> fails with the
  "No Event Gateway configuration provided" error. The code reads \<open>config.apikey\<close> one
  line before it tests \<open>config\<close>: with no section (or no \<open>custom\<close> at all) the call fails
  with a TypeError, which is not that error, and the test is never reached.
\<close>

theorem getClient_without_section_is_TypeError:
  "fst (getClient (this\<lparr>service_custom := Some (cu\<lparr>custom_eventgateway := None\<rparr>)\<rparr>)) = Inl TypeError \<and>
   fst (getClient (this\<lparr>service_custom := None\<rparr>)) = Inl TypeError \<and>
   TypeError \<noteq> MissingConfiguration"
  by (simp add: getClient_def getConfig_def read_apikey_def MissingConfiguration_def)

text \<open>
  C7, as stated, fails: \<open>getConfig\<close> makes no copy. On a project whose section is
  \<open>{subdomain: "acme", apikey: "k"}\<close> the stored section carries both endpoint fields
  after the call and differs from what it was.
\<close>

theorem getConfig_mutates_counterexample:
  "service_custom (snd (getConfig (sample_plugin (Some sample_config) [])))
     = Some \<lparr>custom_eventgateway =
              Some \<lparr>subdomain = Some ''acme'', apikey = Some ''k'',
                    eventsAPI = Some ''https://acme.eventgateway-dev.io'',
                    configurationAPI = Some ''https://config.eventgateway-dev.io/''\<rparr>\<rparr> \<and>
   service_custom (snd (getConfig (sample_plugin (Some sample_config) [])))
     \<noteq> service_custom (sample_plugin (Some sample_config) [])"
  by (simp add: getConfig_def sample_plugin_def sample_config_def str_of_def Let_def)

text \<open>
  C7, amended. When an \<open>eventgateway\<close> section is present, \<open>getConfig\<close> writes the
  \<open>eventsAPI\<close> and \<open>configurationAPI\<close> fields into the project's stored section and returns
  that section: what it returns and what the project stores afterwards are the same
  record, the section with its two endpoint fields set and its other fields as they
  were, and nothing else of the project changes.
\<close>

theorem getConfig_in_place:
  assumes "service_custom this = Some cu" and "custom_eventgateway cu = Some c"
  shows "getConfig this =
           (Some (c\<lparr>eventsAPI := Some (''https://'' @ str_of (subdomain c) @ ''.eventgateway-dev.io''),
                    configurationAPI := Some ''https://config.eventgateway-dev.io/''\<rparr>),
            this\<lparr>service_custom := Some (cu\<lparr>custom_eventgateway :=
              Some (c\<lparr>eventsAPI := Some (''https://'' @ str_of (subdomain c) @ ''.eventgateway-dev.io''),
                      configurationAPI := Some ''https://config.eventgateway-dev.io/''\<rparr>)\<rparr>)\<rparr>)"
  using assms by (simp add: getConfig_def Let_def)

theorem getConfig_in_place_witness:
  "getConfig (sample_plugin (Some sample_config) []) =
     (Some \<lparr>subdomain = Some ''acme'', apikey = Some ''k'',
            eventsAPI = Some ''https://acme.eventgateway-dev.io'',
            configurationAPI = Some ''https://config.eventgateway-dev.io/''\<rparr>,
      sample_plugin
        (Some \<lparr>subdomain = Some ''acme'', apikey = Some ''k'',
               eventsAPI = Some ''https://acme.eventgateway-dev.io'',
               configurationAPI = Some ''https://config.eventgateway-dev.io/''\<rparr>) [])"
  using getConfig_in_place
    [of "sample_plugin (Some sample_config) []" "\<lparr>custom_eventgateway = Some sample_config\<rparr>"
        sample_config]
  by (simp add: sample_plugin_def sample_config_def str_of_def)

section \<open>Stack outputs\<close>

lemma add_output_absent:
  "agg k = None \<Longrightarrow> OutputKey current \<noteq> Some k \<Longrightarrow> add_output agg current k = None"
  by (auto simp: add_output_def truthy_def str_of_def split: option.splits)

lemma foldl_add_output_absent:
  "agg k = None \<Longrightarrow> Some k \<notin> OutputKey ` set os \<Longrightarrow> foldl add_output agg os k = None"
proof (induction os arbitrary: agg)
  case Nil
  then show ?case by simp
next
  case (Cons a os)
  from Cons.prems have "add_output agg a k = None"
    by (intro add_output_absent) auto
  moreover from Cons.prems have "Some k \<notin> OutputKey ` set os"
    by auto
  ultimately show ?case
    using Cons.IH by simp
qed

lemma parseOutputs_absent:
  "Some k \<notin> OutputKey ` set (stack_Outputs st) \<Longrightarrow> parseOutputs st k = None"
  unfolding parseOutputs_def by (rule foldl_add_output_absent) simp_all


lemma missing_output_falsy:
  assumes "Some ''EventGatewayUserAccessKey'' \<notin> OutputKey ` set (stack_Outputs st) \<or>
           Some ''EventGatewayUserSecretKey'' \<notin> OutputKey ` set (stack_Outputs st)"
  shows "\<not> truthy (parseOutputs st ''EventGatewayUserAccessKey'') \<or>
         \<not> truthy (parseOutputs st ''EventGatewayUserSecretKey'')"
  using assms
proof (rule disjE)
  assume a: "Some ''EventGatewayUserAccessKey'' \<notin> OutputKey ` set (stack_Outputs st)"
  have "\<not> truthy (parseOutputs st ''EventGatewayUserAccessKey'')"
    unfolding parseOutputs_absent [OF a] by (simp add: truthy_def)
  then show ?thesis ..
next
  assume a: "Some ''EventGatewayUserSecretKey'' \<notin> OutputKey ` set (stack_Outputs st)"
  have "\<not> truthy (parseOutputs st ''EventGatewayUserSecretKey'')"
    unfolding parseOutputs_absent [OF a] by (simp add: truthy_def)
  then show ?thesis ..
qed

text \<open>
  C5. When the configuration is valid and the stack is fetched, a stack whose outputs omit
  \<open>EventGatewayUserAccessKey\<close> or \<open>EventGatewayUserSecretKey\<close> makes
  \<open>configureEventGateway\<close> fail with the "not found in outputs" error, and the run has made
  no gateway call, not even one of the two listings.
\<close>

theorem missing_outputs_fail_before_gateway:
  assumes "service_custom this = Some cu" and "custom_eventgateway cu = Some c"
    and "truthy (subdomain c)" and "truthy (apikey c)"
    and "describeStacks (awsProvider this) = Inr stacks" and "stacks \<noteq> []"
    and "Some ''EventGatewayUserAccessKey'' \<notin> OutputKey ` set (stack_Outputs (last stacks)) \<or>
         Some ''EventGatewayUserSecretKey'' \<notin> OutputKey ` set (stack_Outputs (last stacks))"
  shows "fst (configureEventGateway this eg) = Inl MissingCredentialsOutput \<and>
         gateway_calls (fst (snd (configureEventGateway this eg))) = []"
proof -
  note f = missing_output_falsy [OF assms(7)]
  have "fst (configureEventGateway this eg) = Inl MissingCredentialsOutput"
    using assms(1-6) f
    by (simp add: configureEventGateway_def getClient_def getConfig_def read_apikey_def Let_def)
  moreover have "fst (snd (configureEventGateway this eg)) = [Log [], Log ''Event Gateway Plugin'']"
    using assms(1-6) f
    by (simp add: configureEventGateway_def getClient_def getConfig_def read_apikey_def Let_def)
  ultimately show ?thesis by (simp add: gateway_calls_def)
qed

text \<open>The sample project on a stack with the access key and the function's ARN only.\<close>

theorem missing_outputs_fail_before_gateway_witness:
  "fst (configureEventGateway no_secret (gateway_of empty_gateway)) = Inl MissingCredentialsOutput \<and>
   gateway_calls (fst (snd (configureEventGateway no_secret (gateway_of empty_gateway)))) = []"
  by (rule missing_outputs_fail_before_gateway
        [of no_secret "\<lparr>custom_eventgateway = Some sample_config\<rparr>" sample_config
            "[\<lparr>stack_Outputs =
               [\<lparr>OutputKey = Some ''EventGatewayUserAccessKey'', OutputValue = Some ''AKIDEXAMPLE''\<rparr>,
                \<lparr>OutputKey = Some ''HelloLambdaVersion'',
                 OutputValue = Some ''arn:aws:lambda:us-east-1:123456789012:function:myFunc:5''\<rparr>]\<rparr>]"])
     (simp_all add: no_secret_def sample_plugin_def sample_config_def sample_aws_def truthy_def)

section \<open>Template augmenter: properties\<close>

lemma map_of_update_other:
  "k \<noteq> key \<Longrightarrow>
   map_of (map (\<lambda>(k', v). if k' = key then (k', f v) else (k', v)) objs) k = map_of objs k"
  by (induction objs) auto

lemma map_of_snoc_other:
  "k \<noteq> key \<Longrightarrow> map_of (objs @ [(key, v)]) k = map_of objs k"
  by (simp add: map_add_def split: option.splits)

lemma mergeObject_other_key:
  "k \<notin> fst ` set srcs \<Longrightarrow> map_of (mergeObject objs srcs) k = map_of objs k"
proof (induction srcs arbitrary: objs)
  case Nil
  then show ?case by simp
next
  case (Cons p srcs)
  obtain key src where p: "p = (key, src)" by (cases p)
  with Cons.prems have ne: "k \<noteq> key" and rest: "k \<notin> fst ` set srcs" by auto
  show ?case
  proof (cases "map_of objs key")
    case None
    with Cons.IH [OF rest, of "objs @ [(key, merge None src)]"] ne p show ?thesis
      by (simp add: map_of_snoc_other del: map_of_append)
  next
    case (Some obj)
    with Cons.IH [OF rest] ne p show ?thesis
      by (simp add: map_of_update_other)
  qed
qed

lemma mergeObject_fresh:
  "distinct (map fst srcs) \<Longrightarrow> (\<And>k. k \<in> fst ` set srcs \<Longrightarrow> map_of objs k = None) \<Longrightarrow>
   mergeObject objs srcs = objs @ map (\<lambda>(k, v). (k, merge None v)) srcs"
proof (induction srcs arbitrary: objs)
  case Nil
  then show ?case by simp
next
  case (Cons p srcs)
  obtain key src where p: "p = (key, src)" by (cases p)
  from Cons.prems(2) [of key] p have fresh: "map_of objs key = None" by simp
  from Cons.prems(1) p have d: "distinct (map fst srcs)" and nk: "key \<notin> fst ` set srcs"
    by auto
  have "map_of (objs @ [(key, merge None src)]) k = None" if "k \<in> fst ` set srcs" for k
  proof -
    from that nk have "k \<noteq> key" by auto
    moreover from that Cons.prems(2) [of k] have "map_of objs k = None" by simp
    ultimately show ?thesis by (simp add: map_of_snoc_other del: map_of_append)
  qed
  from Cons.IH [OF d this] fresh p show ?case by simp
qed

lemma mergeArray_arn_references:
  "mergeArray [] (map (arn_reference this) names) = map (arn_reference this) names"
  by (induction names) (simp_all add: arn_reference_def)

lemma merge_iam_resources:
  assumes "map_of objs ''EventGatewayUser'' = None"
    and "map_of objs ''EventGatewayUserPolicy'' = None"
    and "map_of objs ''EventGatewayUserKeys'' = None"
  shows "mergeObject objs (iam_resources (map (arn_reference this) names))
     = objs @ iam_resources (map (arn_reference this) names)"
proof -
  have "mergeObject objs (iam_resources (map (arn_reference this) names))
     = objs @ map (\<lambda>(k, v). (k, merge None v)) (iam_resources (map (arn_reference this) names))"
  proof (rule mergeObject_fresh)
    show "distinct (map fst (iam_resources (map (arn_reference this) names)))"
      by (simp add: iam_resources_def)
  next
    fix k assume "k \<in> fst ` set (iam_resources (map (arn_reference this) names))"
    then have "k = ''EventGatewayUser'' \<or> k = ''EventGatewayUserPolicy'' \<or> k = ''EventGatewayUserKeys''"
      by (simp add: iam_resources_def)
    with assms show "map_of objs k = None" by (elim disjE) simp_all
  qed
  also have "map (\<lambda>(k, v). (k, merge None v)) (iam_resources (map (arn_reference this) names))
      = iam_resources (map (arn_reference this) names)"
    by (simp add: iam_resources_def mergeArray_arn_references)
  finally show ?thesis .
qed

lemma merge_iam_outputs:
  assumes "map_of objs ''EventGatewayUserAccessKey'' = None"
    and "map_of objs ''EventGatewayUserSecretKey'' = None"
  shows "mergeObject objs iam_outputs = objs @ iam_outputs"
proof -
  have "mergeObject objs iam_outputs = objs @ map (\<lambda>(k, v). (k, merge None v)) iam_outputs"
  proof (rule mergeObject_fresh)
    show "distinct (map fst iam_outputs)"
      by (simp add: iam_outputs_def)
  next
    fix k assume "k \<in> fst ` set iam_outputs"
    then have "k = ''EventGatewayUserAccessKey'' \<or> k = ''EventGatewayUserSecretKey''"
      by (simp add: iam_outputs_def)
    with assms show "map_of objs k = None" by (elim disjE) simp_all
  qed
  also have "map (\<lambda>(k, v). (k, merge None v)) iam_outputs = iam_outputs"
    by (simp add: iam_outputs_def)
  finally show ?thesis .
qed

lemma policy_Resource_appended:
  "map_of objs ''EventGatewayUserPolicy'' = None \<Longrightarrow>
   policy_Resource (objs @ iam_resources rs) = Some (JArray rs)"
  by (simp add: policy_Resource_def iam_resources_def field_def item_def at_index_def map_add_def)


lemma mergeObject_keys:
  "fst ` set (mergeObject objs srcs) = fst ` set objs \<union> fst ` set srcs"
proof (induction srcs arbitrary: objs)
  case Nil
  then show ?case by simp
next
  case (Cons p srcs)
  obtain key src where p: "p = (key, src)" by (cases p)
  show ?case
  proof (cases "map_of objs key")
    case None
    with Cons.IH [of "objs @ [(key, merge None src)]"] p show ?thesis
      by auto
  next
    case (Some obj)
    then have "key \<in> fst ` set objs"
      using map_of_SomeD [of objs key obj] by (simp add: image_iff) (rule bexI [of _ "(key, obj)"], simp_all)
    moreover have "fst ` set (map (\<lambda>(k, v). if k = key then (k, merge (Some v) src) else (k, v)) objs)
        = fst ` set objs"
      by (force simp: image_iff split: if_splits)
    ultimately show ?thesis
      using Cons.IH [of "map (\<lambda>(k, v). if k = key then (k, merge (Some v) src) else (k, v)) objs"]
        Some p
      by auto
  qed
qed

text \<open>
  C8, as stated, fails: the merge is deep, so a policy that the template already defines
  keeps what the new one does not overwrite, and arrays are merged index by index. On a
  template whose \<open>EventGatewayUserPolicy\<close> lists two functions, the \<open>Resource\<close> list after
  \<open>addUserDefinition\<close> still has both entries when no function qualifies, and has the
  reference of \<open>Hello\<close> followed by the second old entry when \<open>Hello\<close> alone qualifies:
  two entries for no function, two for one.
\<close>

theorem addUserDefinition_existing_policy_counterexample:
  "filterFunctionsWithEvents (recompiled_plugin [schedule_trigger]) = [] \<and>
   policy_Resource (Resources (addUserDefinition (recompiled_plugin [schedule_trigger])))
     = Some (JArray
         [JObject [(''Fn::GetAtt'', JArray [JString ''OldLambdaFunction'', JString ''Arn''])],
          JObject [(''Fn::GetAtt'', JArray [JString ''GoneLambdaFunction'', JString ''Arn''])]]) \<and>
   filterFunctionsWithEvents (recompiled_plugin [http_trigger None]) = [''Hello''] \<and>
   policy_Resource (Resources (addUserDefinition (recompiled_plugin [http_trigger None])))
     = Some (JArray
         [JObject [(''Fn::GetAtt'', JArray [JString ''HelloLambdaFunction'', JString ''Arn''])],
          JObject [(''Fn::GetAtt'', JArray [JString ''GoneLambdaFunction'', JString ''Arn''])]]) \<and>
   map_of (Resources (addUserDefinition (recompiled_plugin [schedule_trigger])))
       ''EventGatewayUserPolicy''
     = Some (JObject
         [(''Type'', JString ''AWS::IAM::ManagedPolicy''),
          (''Properties'',
             JObject
               [(''PolicyDocument'',
                   JObject
                     [(''Statement'',
                         JArray
                           [JObject
                              [(''Resource'',
                                  JArray
                                    [JObject [(''Fn::GetAtt'',
                                               JArray [JString ''OldLambdaFunction'', JString ''Arn''])],
                                     JObject [(''Fn::GetAtt'',
                                               JArray [JString ''GoneLambdaFunction'', JString ''Arn''])]]),
                               (''Effect'', JString ''Allow''),
                               (''Action'', JArray [JString ''lambda:InvokeFunction''])]]),
                      (''Version'', JString ''2012-10-17'')]),
                (''Description'',
                   JString ''This policy allows Custom plugin to gather data on IAM users''),
                (''Users'', JArray [JObject [(''Ref'', JString ''EventGatewayUser'')]])])])"
  by code_simp

text \<open>
  C8, amended. For every template, \<open>addUserDefinition\<close> keeps each resource and each output
  under another name as it was, and the names afterwards are the old ones and
  \<open>EventGatewayUser\<close>, \<open>EventGatewayUserPolicy\<close>, \<open>EventGatewayUserKeys\<close> among the
  resources, \<open>EventGatewayUserAccessKey\<close>, \<open>EventGatewayUserSecretKey\<close> among the outputs.
  On a template that does not define the three resource names yet, the resources
  afterwards are the old ones followed by exactly the IAM user, the managed policy and
  the access key written out below, and the policy's \<open>Resource\<close> list is one
  \<open>Fn::GetAtt\<close> reference to the \<open>Arn\<close> of the Lambda resource of each qualifying function,
  in order (the empty list when none qualifies). On a template that does not define the
  two output names yet, the outputs afterwards are the old ones followed by exactly the
  two outputs written out below.
\<close>

theorem addUserDefinition_on_fresh_template:
  "(k \<notin> {''EventGatewayUser'', ''EventGatewayUserPolicy'', ''EventGatewayUserKeys''} \<longrightarrow>
      map_of (Resources (addUserDefinition this)) k = map_of (Resources this) k) \<and>
   (k \<notin> {''EventGatewayUserAccessKey'', ''EventGatewayUserSecretKey''} \<longrightarrow>
      map_of (Outputs (addUserDefinition this)) k = map_of (Outputs this) k) \<and>
   fst ` set (Resources (addUserDefinition this)) =
     fst ` set (Resources this) \<union>
     {''EventGatewayUser'', ''EventGatewayUserPolicy'', ''EventGatewayUserKeys''} \<and>
   fst ` set (Outputs (addUserDefinition this)) =
     fst ` set (Outputs this) \<union> {''EventGatewayUserAccessKey'', ''EventGatewayUserSecretKey''} \<and>
   (map_of (Resources this) ''EventGatewayUser'' = None \<and>
    map_of (Resources this) ''EventGatewayUserPolicy'' = None \<and>
    map_of (Resources this) ''EventGatewayUserKeys'' = None \<longrightarrow>
      Resources (addUserDefinition this) =
        Resources this @
        [(''EventGatewayUser'', JObject [(''Type'', JString ''AWS::IAM::User'')]),
         (''EventGatewayUserPolicy'',
            JObject
              [(''Type'', JString ''AWS::IAM::ManagedPolicy''),
               (''Properties'',
                  JObject
                    [(''Description'',
                        JString ''This policy allows Custom plugin to gather data on IAM users''),
                     (''PolicyDocument'',
                        JObject
                          [(''Version'', JString ''2012-10-17''),
                           (''Statement'',
                              JArray
                                [JObject
                                   [(''Effect'', JString ''Allow''),
                                    (''Action'', JArray [JString ''lambda:InvokeFunction'']),
                                    (''Resource'',
                                       JArray
                                         (map (\<lambda>name.
                                            JObject
                                              [(''Fn::GetAtt'',
                                                JArray
                                                  [JString (getLambdaLogicalId (awsProvider this) name),
                                                   JString ''Arn''])])
                                            (filterFunctionsWithEvents this)))]])]),
                     (''Users'', JArray [JObject [(''Ref'', JString ''EventGatewayUser'')]])])]),
         (''EventGatewayUserKeys'',
            JObject
              [(''Type'', JString ''AWS::IAM::AccessKey''),
               (''Properties'',
                  JObject [(''UserName'', JObject [(''Ref'', JString ''EventGatewayUser'')])])])] \<and>
      policy_Resource (Resources (addUserDefinition this)) =
        Some (JArray
          (map (\<lambda>name.
             JObject
               [(''Fn::GetAtt'',
                 JArray [JString (getLambdaLogicalId (awsProvider this) name), JString ''Arn''])])
             (filterFunctionsWithEvents this)))) \<and>
   (map_of (Outputs this) ''EventGatewayUserAccessKey'' = None \<and>
    map_of (Outputs this) ''EventGatewayUserSecretKey'' = None \<longrightarrow>
      Outputs (addUserDefinition this) =
        Outputs this @
        [(''EventGatewayUserAccessKey'',
            JObject
              [(''Value'', JObject [(''Ref'', JString ''EventGatewayUserKeys'')]),
               (''Description'', JString ''Access Key ID of Custom User'')]),
         (''EventGatewayUserSecretKey'',
            JObject
              [(''Value'',
                  JObject [(''Fn::GetAtt'',
                            JArray [JString ''EventGatewayUserKeys'', JString ''SecretAccessKey''])]),
               (''Description'', JString ''Secret Key of Custom User'')])])"
proof -
  let ?rs = "map (arn_reference this) (filterFunctionsWithEvents this)"
  have ar: "arn_reference this =
      (\<lambda>name. JObject
         [(''Fn::GetAtt'',
           JArray [JString (getLambdaLogicalId (awsProvider this) name), JString ''Arn''])])"
    by (rule ext) (simp add: arn_reference_def)
  have R: "Resources (addUserDefinition this) = mergeObject (Resources this) (iam_resources ?rs)"
    by (simp add: addUserDefinition_def policy_resources_def Let_def)
  have O: "Outputs (addUserDefinition this) = mergeObject (Outputs this) iam_outputs"
    by (simp add: addUserDefinition_def Let_def)
  have kr: "fst ` set (iam_resources ?rs) =
      {''EventGatewayUser'', ''EventGatewayUserPolicy'', ''EventGatewayUserKeys''}"
    by (simp add: iam_resources_def)
  have ko: "fst ` set iam_outputs = {''EventGatewayUserAccessKey'', ''EventGatewayUserSecretKey''}"
    by (simp add: iam_outputs_def)
  have 1: "k \<notin> {''EventGatewayUser'', ''EventGatewayUserPolicy'', ''EventGatewayUserKeys''} \<longrightarrow>
      map_of (Resources (addUserDefinition this)) k = map_of (Resources this) k"
    unfolding R kr [symmetric] by (rule impI) (rule mergeObject_other_key)
  have 2: "k \<notin> {''EventGatewayUserAccessKey'', ''EventGatewayUserSecretKey''} \<longrightarrow>
      map_of (Outputs (addUserDefinition this)) k = map_of (Outputs this) k"
    unfolding O ko [symmetric] by (rule impI) (rule mergeObject_other_key)
  have 3: "fst ` set (Resources (addUserDefinition this)) =
     fst ` set (Resources this) \<union>
     {''EventGatewayUser'', ''EventGatewayUserPolicy'', ''EventGatewayUserKeys''}"
    unfolding R kr [symmetric] by (rule mergeObject_keys)
  have 4: "fst ` set (Outputs (addUserDefinition this)) =
     fst ` set (Outputs this) \<union> {''EventGatewayUserAccessKey'', ''EventGatewayUserSecretKey''}"
    unfolding O ko [symmetric] by (rule mergeObject_keys)
  have 5: "map_of (Resources this) ''EventGatewayUser'' = None \<and>
    map_of (Resources this) ''EventGatewayUserPolicy'' = None \<and>
    map_of (Resources this) ''EventGatewayUserKeys'' = None \<longrightarrow>
      Resources (addUserDefinition this) = Resources this @ iam_resources ?rs \<and>
      policy_Resource (Resources (addUserDefinition this)) = Some (JArray ?rs)"
  proof (rule impI, elim conjE)
    assume a: "map_of (Resources this) ''EventGatewayUser'' = None"
      "map_of (Resources this) ''EventGatewayUserPolicy'' = None"
      "map_of (Resources this) ''EventGatewayUserKeys'' = None"
    have e: "Resources (addUserDefinition this) = Resources this @ iam_resources ?rs"
      unfolding R by (rule merge_iam_resources [OF a])
    moreover have "policy_Resource (Resources (addUserDefinition this)) = Some (JArray ?rs)"
      unfolding e by (rule policy_Resource_appended [OF a(2)])
    ultimately show "Resources (addUserDefinition this) = Resources this @ iam_resources ?rs \<and>
      policy_Resource (Resources (addUserDefinition this)) = Some (JArray ?rs)" ..
  qed
  have 6: "map_of (Outputs this) ''EventGatewayUserAccessKey'' = None \<and>
    map_of (Outputs this) ''EventGatewayUserSecretKey'' = None \<longrightarrow>
      Outputs (addUserDefinition this) = Outputs this @ iam_outputs"
    unfolding O by (rule impI, elim conjE) (rule merge_iam_outputs)
  show ?thesis
    by (rule conjI [OF 1 conjI [OF 2 conjI [OF 3 conjI
          [OF 4 conjI [OF 5 [unfolded ar iam_resources_def] 6 [unfolded iam_outputs_def]]]]]])
qed

lemma sample_qualifies:
  "filterFunctionsWithEvents (sample_plugin sect [http_trigger m]) = [''Hello'']"
  by (simp add: filterFunctionsWithEvents_def getAllFunctions_def getFunction_def
      sample_plugin_def http_trigger_def)

lemma sample_none_qualifies:
  "filterFunctionsWithEvents (sample_plugin sect [schedule_trigger]) = []"
  by (simp add: filterFunctionsWithEvents_def getAllFunctions_def getFunction_def
      sample_plugin_def schedule_trigger_def)

text \<open>
  The sample template, which holds the function's own resource and none of the five
  names: with one qualifying function and with none.
\<close>

theorem addUserDefinition_on_fresh_template_witness:
  "Resources (addUserDefinition (sample_plugin None [http_trigger None])) =
     [(''HelloLambdaFunction'', JObject [(''Type'', JString ''AWS::Lambda::Function'')]),
      (''EventGatewayUser'', JObject [(''Type'', JString ''AWS::IAM::User'')]),
      (''EventGatewayUserPolicy'',
         JObject
           [(''Type'', JString ''AWS::IAM::ManagedPolicy''),
            (''Properties'',
               JObject
                 [(''Description'',
                     JString ''This policy allows Custom plugin to gather data on IAM users''),
                  (''PolicyDocument'',
                     JObject
                       [(''Version'', JString ''2012-10-17''),
                        (''Statement'',
                           JArray
                             [JObject
                                [(''Effect'', JString ''Allow''),
                                 (''Action'', JArray [JString ''lambda:InvokeFunction'']),
                                 (''Resource'',
                                    JArray
                                      [JObject
                                         [(''Fn::GetAtt'',
                                           JArray [JString ''HelloLambdaFunction'',
                                                   JString ''Arn''])]])]])]),
                  (''Users'', JArray [JObject [(''Ref'', JString ''EventGatewayUser'')]])])]),
      (''EventGatewayUserKeys'',
         JObject
           [(''Type'', JString ''AWS::IAM::AccessKey''),
            (''Properties'',
               JObject [(''UserName'', JObject [(''Ref'', JString ''EventGatewayUser'')])])])] \<and>
   map_of (Resources (addUserDefinition (sample_plugin None [http_trigger None]))) ''HelloLambdaFunction''
     = Some (JObject [(''Type'', JString ''AWS::Lambda::Function'')]) \<and>
   Outputs (addUserDefinition (sample_plugin None [http_trigger None])) =
     [(''EventGatewayUserAccessKey'',
         JObject
           [(''Value'', JObject [(''Ref'', JString ''EventGatewayUserKeys'')]),
            (''Description'', JString ''Access Key ID of Custom User'')]),
      (''EventGatewayUserSecretKey'',
         JObject
           [(''Value'',
               JObject [(''Fn::GetAtt'',
                         JArray [JString ''EventGatewayUserKeys'', JString ''SecretAccessKey''])]),
            (''Description'', JString ''Secret Key of Custom User'')])] \<and>
   policy_Resource (Resources (addUserDefinition (sample_plugin None [schedule_trigger])))
     = Some (JArray [])"
proof -
  note one = addUserDefinition_on_fresh_template
    [of "''HelloLambdaFunction''" "sample_plugin None [http_trigger None]"]
  note zero = addUserDefinition_on_fresh_template
    [of "''HelloLambdaFunction''" "sample_plugin None [schedule_trigger]"]
  have r: "map_of (Resources (sample_plugin None ts)) ''EventGatewayUser'' = None \<and>
        map_of (Resources (sample_plugin None ts)) ''EventGatewayUserPolicy'' = None \<and>
        map_of (Resources (sample_plugin None ts)) ''EventGatewayUserKeys'' = None" for ts
    by (simp add: sample_plugin_def)
  have o: "map_of (Outputs (sample_plugin None ts)) ''EventGatewayUserAccessKey'' = None \<and>
        map_of (Outputs (sample_plugin None ts)) ''EventGatewayUserSecretKey'' = None" for ts
    by (simp add: sample_plugin_def)
  have k: "''HelloLambdaFunction'' \<notin> {''EventGatewayUser'', ''EventGatewayUserPolicy'', ''EventGatewayUserKeys''}"
    by simp
  note five = one [THEN conjunct2, THEN conjunct2, THEN conjunct2, THEN conjunct2]
  have 1: "Resources (addUserDefinition (sample_plugin None [http_trigger None])) =
     [(''HelloLambdaFunction'', JObject [(''Type'', JString ''AWS::Lambda::Function'')]),
      (''EventGatewayUser'', JObject [(''Type'', JString ''AWS::IAM::User'')]),
      (''EventGatewayUserPolicy'',
         JObject
           [(''Type'', JString ''AWS::IAM::ManagedPolicy''),
            (''Properties'',
               JObject
                 [(''Description'',
                     JString ''This policy allows Custom plugin to gather data on IAM users''),
                  (''PolicyDocument'',
                     JObject
                       [(''Version'', JString ''2012-10-17''),
                        (''Statement'',
                           JArray
                             [JObject
                                [(''Effect'', JString ''Allow''),
                                 (''Action'', JArray [JString ''lambda:InvokeFunction'']),
                                 (''Resource'',
                                    JArray
                                      [JObject
                                         [(''Fn::GetAtt'',
                                           JArray [JString ''HelloLambdaFunction'',
                                                   JString ''Arn''])]])]])]),
                  (''Users'', JArray [JObject [(''Ref'', JString ''EventGatewayUser'')]])])]),
      (''EventGatewayUserKeys'',
         JObject
           [(''Type'', JString ''AWS::IAM::AccessKey''),
            (''Properties'',
               JObject [(''UserName'', JObject [(''Ref'', JString ''EventGatewayUser'')])])])]"
    unfolding five [THEN conjunct1, THEN mp, OF r, THEN conjunct1]
    by (simp only: sample_qualifies) (simp add: sample_plugin_def sample_aws_def)
  have 2: "map_of (Resources (addUserDefinition (sample_plugin None [http_trigger None]))) ''HelloLambdaFunction''
     = Some (JObject [(''Type'', JString ''AWS::Lambda::Function'')])"
    unfolding one [THEN conjunct1, THEN mp, OF k] by (simp add: sample_plugin_def)
  have 3: "Outputs (addUserDefinition (sample_plugin None [http_trigger None])) =
     [(''EventGatewayUserAccessKey'',
         JObject
           [(''Value'', JObject [(''Ref'', JString ''EventGatewayUserKeys'')]),
            (''Description'', JString ''Access Key ID of Custom User'')]),
      (''EventGatewayUserSecretKey'',
         JObject
           [(''Value'',
               JObject [(''Fn::GetAtt'',
                         JArray [JString ''EventGatewayUserKeys'', JString ''SecretAccessKey''])]),
            (''Description'', JString ''Secret Key of Custom User'')])]"
    unfolding five [THEN conjunct2, THEN mp, OF o] by (simp add: sample_plugin_def)
  have 4: "policy_Resource (Resources (addUserDefinition (sample_plugin None [schedule_trigger])))
     = Some (JArray [])"
    unfolding zero [THEN conjunct2, THEN conjunct2, THEN conjunct2, THEN conjunct2, THEN conjunct1,
        THEN mp, OF r, THEN conjunct2]
    by (simp add: sample_none_qualifies)
  show ?thesis
    by (rule conjI [OF 1 conjI [OF 2 conjI [OF 3 4]]])
qed

section \<open>Synchronisation engine: properties\<close>

text \<open>
  The answer of the gateway to a registration has no effect on a run: the only place
  that reads it is \<open>registerFunction\<close>, whose result \<open>configureEventGateway\<close> drops.
\<close>

lemma snd_registerFunction: "snd (registerFunction eg f) = [Call (RegisterFunction f)]"
  by (simp add: registerFunction_def split: option.splits)

lemma createSubscription_registration:
  "createSubscription config (eg\<lparr>gw_registerFunction := r\<rparr>) fid ev = createSubscription config eg fid ev"
  by (simp add: createSubscription_def Let_def split: option.splits sum.splits)

lemma reconcile_event_registration:
  "reconcile_event config (eg\<lparr>gw_registerFunction := r\<rparr>) name fid cs ev
     = reconcile_event config eg name fid cs ev"
  by (simp add: reconcile_event_def createSubscription_registration split: option.splits)

lemma reconcile_events_registration:
  "reconcile_events config (eg\<lparr>gw_registerFunction := r\<rparr>) name fid cs evs
     = reconcile_events config eg name fid cs evs"
  by (induction evs arbitrary: cs)
    (simp_all add: reconcile_event_registration)

lemma subscribe_new_registration:
  "subscribe_new config (eg\<lparr>gw_registerFunction := r\<rparr>) name fid = subscribe_new config eg name fid"
  by (rule ext) (simp add: subscribe_new_def createSubscription_registration)

lemma unsubscribe_stale_registration:
  "unsubscribe_stale (eg\<lparr>gw_registerFunction := r\<rparr>) name = unsubscribe_stale eg name"
  by (rule ext) (simp add: unsubscribe_stale_def)

lemma synchronize_function_registration:
  "synchronize_function this config (eg\<lparr>gw_registerFunction := r\<rparr>) outputs subs fs name
     = synchronize_function this config eg outputs subs fs name"
  by (simp add: synchronize_function_def snd_registerFunction subscribe_new_registration
      reconcile_events_registration unsubscribe_stale_registration Let_def
      split: option.splits)

lemma synchronize_functions_registration:
  "synchronize_functions this config (eg\<lparr>gw_registerFunction := r\<rparr>) outputs subs fs names
     = synchronize_functions this config eg outputs subs fs names"
  by (induction names arbitrary: fs) (simp_all add: synchronize_function_registration)

lemma reconcile_registration:
  "reconcile this config (eg\<lparr>gw_registerFunction := r\<rparr>) outputs = reconcile this config eg outputs"
  by (simp add: reconcile_def synchronize_functions_registration)

lemma configureEventGateway_registration:
  "configureEventGateway this (eg\<lparr>gw_registerFunction := r\<rparr>) = configureEventGateway this eg"
  by (simp add: configureEventGateway_def reconcile_registration Let_def
      split: prod.splits sum.splits option.splits)

lemma createSubscription_http_no_method:
  "createSubscription config eg fid (Some \<lparr>ev_event = ''http'', ev_path = p, ev_method = None, ev_cors = c\<rparr>)
     = (Inl TypeError, [])"
  by (simp add: createSubscription_def http_method_def)

lemma createSubscription_http_method:
  "snd (createSubscription config eg fid (Some \<lparr>ev_event = ''http'', ev_path = p, ev_method = Some m, ev_cors = c\<rparr>))
     = [Call (Subscribe \<lparr>req_functionId = fid, req_event = ''http'',
          req_path = eventPath \<lparr>ev_event = ''http'', ev_path = p, ev_method = Some m, ev_cors = c\<rparr> (subdomain config),
          req_cors = c, req_method = Some (if m = [] then ''GET'' else toUpperCase m)\<rparr>)]"
  by (simp add: createSubscription_def http_method_def or_else_def truthy_def toUpperCase_def
      Let_def split: option.splits)

lemma subscribe_new_other_kind:
  "subscribe_new config eg name fid (t\<lparr>eventgateway := None\<rparr>) = [Rejected TypeError]"
  by (simp add: subscribe_new_def createSubscription_def)

lemma reconcile_event_other_kind:
  "reconcile_event config eg name fid cs (t\<lparr>eventgateway := None\<rparr>) = ([Rejected TypeError], cs)"
  by (simp add: reconcile_event_def)


text \<open>
  C2. The claim: when the gateway rejects the registration of a function it does not know,
  the run raises \<open>FunctionRegistrationFailed\<close> for that function, logs no registration and
  creates none of its subscriptions. \<open>registerFunction\<close> does build that error, but its
  caller passes it through \<open>to\<close> and drops the result. On the sample project with a
  gateway that rejects every registration, the run reports the function as registered,
  subscribes it and rejects nothing; in general a run is the same whatever the gateway
  answers to registrations.
\<close>

theorem registration_error_is_dropped:
  "fst (registerFunction rejecting_gateway sample_fn)
     = Inl (FunctionRegistrationFailed (Some ''myFunc'') ''boom'') \<and>
   fst (configureEventGateway (sample_plugin (Some sample_config) [http_trigger (Some ''GET'')])
          rejecting_gateway) = Inr () \<and>
   fst (snd (configureEventGateway (sample_plugin (Some sample_config) [http_trigger (Some ''GET'')])
               rejecting_gateway))
     = [Log [], Log ''Event Gateway Plugin'', Call ListFunctions, Call ListSubscriptions,
        Call (RegisterFunction sample_fn), Log (log_registered ''Hello'' (Some ''myFunc'')),
        Call (Subscribe sample_request), Log (log_subscribed ''Hello'' ''http'')] \<and>
   configureEventGateway this (eg\<lparr>gw_registerFunction := r\<rparr>) = configureEventGateway this eg"
proof -
  have 1: "fst (registerFunction rejecting_gateway sample_fn)
     = Inl (FunctionRegistrationFailed (Some ''myFunc'') ''boom'')"
    by (simp add: registerFunction_def rejecting_gateway_def sample_fn_def)
  have 2: "fst (configureEventGateway (sample_plugin (Some sample_config) [http_trigger (Some ''GET'')])
          rejecting_gateway) = Inr ()"
    by code_simp
  have 3: "fst (snd (configureEventGateway (sample_plugin (Some sample_config) [http_trigger (Some ''GET'')])
               rejecting_gateway))
     = [Log [], Log ''Event Gateway Plugin'', Call ListFunctions, Call ListSubscriptions,
        Call (RegisterFunction sample_fn), Log (log_registered ''Hello'' (Some ''myFunc'')),
        Call (Subscribe sample_request), Log (log_subscribed ''Hello'' ''http'')]"
    by code_simp
  show ?thesis
    by (rule conjI [OF 1 conjI [OF 2 conjI [OF 3 configureEventGateway_registration]]])
qed

text \<open>The rejecting gateway and the one that accepts: the same run on the sample project.\<close>

theorem registration_error_is_dropped_witness:
  "configureEventGateway (sample_plugin (Some sample_config) [http_trigger (Some ''GET'')])
     rejecting_gateway
   = configureEventGateway (sample_plugin (Some sample_config) [http_trigger (Some ''GET'')])
       (gateway_of empty_gateway)"
  unfolding rejecting_gateway_def
  by (rule registration_error_is_dropped
        [where this = "sample_plugin (Some sample_config) [http_trigger (Some ''GET'')]"
           and eg = "gateway_of empty_gateway" and r = "\<lambda>f. Some ''boom''",
         THEN conjunct2, THEN conjunct2, THEN conjunct2])

text \<open>
  C3. The claim: the subscribe request of an http event carries the declared method in
  upper case, \<open>"GET"\<close> when the declared method is falsy, so that an http event with no
  method yields one subscribe call with method \<open>"GET"\<close>. The code calls \<open>toUpperCase\<close> on
  the method before the \<open>|| "GET"\<close>: an empty method becomes \<open>"GET"\<close>, but with the method
  absent \<open>createSubscription\<close> fails with a TypeError before it calls the gateway. On the
  sample project with an http event on \<open>/hello\<close> and no method, the run registers the
  function and makes no subscribe call, yet logs the subscription.
\<close>

theorem http_event_without_method:
  "createSubscription config eg fid
     (Some \<lparr>ev_event = ''http'', ev_path = p, ev_method = None, ev_cors = c\<rparr>) = (Inl TypeError, []) \<and>
   fst (snd (configureEventGateway (sample_plugin (Some sample_config) [http_trigger None])
               (gateway_of empty_gateway)))
     = [Log [], Log ''Event Gateway Plugin'', Call ListFunctions, Call ListSubscriptions,
        Call (RegisterFunction sample_fn), Log (log_registered ''Hello'' (Some ''myFunc'')),
        Log (log_subscribed ''Hello'' ''http'')]"
proof -
  have "fst (snd (configureEventGateway (sample_plugin (Some sample_config) [http_trigger None])
               (gateway_of empty_gateway)))
     = [Log [], Log ''Event Gateway Plugin'', Call ListFunctions, Call ListSubscriptions,
        Call (RegisterFunction sample_fn), Log (log_registered ''Hello'' (Some ''myFunc'')),
        Log (log_subscribed ''Hello'' ''http'')]"
    by code_simp
  with createSubscription_http_no_method show ?thesis
    by (rule conjI)
qed

text \<open>The event of the sample project without its method, for the function \<open>myFunc\<close>.\<close>

theorem http_event_without_method_witness:
  "createSubscription sample_config (gateway_of empty_gateway) (Some ''myFunc'')
     (Some \<lparr>ev_event = ''http'', ev_path = Some ''/hello'', ev_method = None, ev_cors = None\<rparr>)
   = (Inl TypeError, [])"
  by (rule http_event_without_method
        [where config = sample_config and eg = "gateway_of empty_gateway"
           and fid = "Some ''myFunc''" and p = "Some ''/hello''" and c = None,
         THEN conjunct1])

text \<open>
  C4. The claim: a trigger of another kind (no \<open>eventgateway\<close> key) on a qualifying
  function produces no subscribe call, no confirmation log and no error. The engine
  iterates over all the triggers of the function, not over its gateway events only: for
  such a trigger there is no call and no log, but the unit of work is rejected with a
  TypeError that nothing handles, for a new function as for a registered one. On the
  sample project with a schedule trigger before its http event, the trace of the run
  holds that rejection.
\<close>

theorem other_kind_trigger_is_rejected:
  "subscribe_new config eg name fid (t\<lparr>eventgateway := None\<rparr>) = [Rejected TypeError] \<and>
   reconcile_event config eg name fid cs (t\<lparr>eventgateway := None\<rparr>) = ([Rejected TypeError], cs) \<and>
   fst (snd (configureEventGateway
               (sample_plugin (Some sample_config) [schedule_trigger, http_trigger (Some ''GET'')])
               (gateway_of empty_gateway)))
     = [Log [], Log ''Event Gateway Plugin'', Call ListFunctions, Call ListSubscriptions,
        Call (RegisterFunction sample_fn), Log (log_registered ''Hello'' (Some ''myFunc'')),
        Rejected TypeError,
        Call (Subscribe sample_request), Log (log_subscribed ''Hello'' ''http'')]"
proof -
  have "fst (snd (configureEventGateway
               (sample_plugin (Some sample_config) [schedule_trigger, http_trigger (Some ''GET'')])
               (gateway_of empty_gateway)))
     = [Log [], Log ''Event Gateway Plugin'', Call ListFunctions, Call ListSubscriptions,
        Call (RegisterFunction sample_fn), Log (log_registered ''Hello'' (Some ''myFunc'')),
        Rejected TypeError,
        Call (Subscribe sample_request), Log (log_subscribed ''Hello'' ''http'')]"
    by code_simp
  then show ?thesis
    by (rule conjI [OF subscribe_new_other_kind conjI [OF reconcile_event_other_kind]])
qed

text \<open>The schedule trigger on a function just registered and on one already known.\<close>

theorem other_kind_trigger_is_rejected_witness:
  "subscribe_new sample_config (gateway_of empty_gateway) ''Hello'' (Some ''myFunc'') schedule_trigger
     = [Rejected TypeError] \<and>
   reconcile_event sample_config (gateway_of empty_gateway) ''Hello'' (Some ''myFunc'')
       [sample_subscription] schedule_trigger
     = ([Rejected TypeError], [sample_subscription])"
proof -
  have t: "schedule_trigger\<lparr>eventgateway := None\<rparr> = schedule_trigger"
    by (simp add: schedule_trigger_def)
  note w = other_kind_trigger_is_rejected
    [where config = sample_config and eg = "gateway_of empty_gateway" and name = "''Hello''"
       and fid = "Some ''myFunc''" and t = schedule_trigger and cs = "[sample_subscription]"]
  from w [THEN conjunct1] w [THEN conjunct2, THEN conjunct1] show ?thesis
    unfolding t by (rule conjI)
qed

text \<open>
  Two runs in a row on the sample project with its method written \<open>GET\<close>: the first
  registers and subscribes, the second only lists.
\<close>

lemma second_run_uppercase_method:
  "synchronize_on (sample_plugin (Some sample_config) [http_trigger (Some ''GET'')]) empty_gateway
     = ([ListFunctions, ListSubscriptions, RegisterFunction sample_fn, Subscribe sample_request],
        synchronized_gateway) \<and>
   changes (fst (synchronize_on (sample_plugin (Some sample_config) [http_trigger (Some ''GET'')])
                   synchronized_gateway)) = []"
  by code_simp

text \<open>
  C1. The claim: for every declared set, a second run with nothing changed makes no
  register, subscribe, unsubscribe or delete call. The engine looks for an existing
  subscription with the method as declared, while \<open>createSubscription\<close> sends it in upper
  case. On the sample project with its method written \<open>get\<close>, the first run leaves the
  gateway with the function and one subscription with method \<open>GET\<close>; the second run does
  not recognise it (the declared event does not match it), subscribes again and
  unsubscribes the one it found.
\<close>

theorem second_run_lowercase_method:
  "synchronize_on (sample_plugin (Some sample_config) [http_trigger (Some ''get'')]) empty_gateway
     = ([ListFunctions, ListSubscriptions, RegisterFunction sample_fn, Subscribe sample_request],
        synchronized_gateway) \<and>
   changes (fst (synchronize_on (sample_plugin (Some sample_config) [http_trigger (Some ''get'')])
                   synchronized_gateway))
     = [Subscribe sample_request, Unsubscribe ''sub''] \<and>
   \<not> matches sample_config
       \<lparr>ev_event = ''http'', ev_path = Some ''/hello'', ev_method = Some ''get'', ev_cors = None\<rparr>
       sample_subscription"
  by code_simp

text \<open>The second run changes the gateway: it makes two calls beyond the listings.\<close>

theorem second_run_lowercase_method_witness:
  "length (changes (fst (synchronize_on
      (sample_plugin (Some sample_config) [http_trigger (Some ''get'')]) synchronized_gateway))) = 2"
  unfolding second_run_lowercase_method [THEN conjunct2, THEN conjunct1] by simp

end
